theory Spec2Isabelle
  imports Main "HOL-Library.Word"
begin

unbundle bit_operations_syntax

section \<open>Adjacency SID TLV of gobmp (pkg/sr/sr-adjacencysid.go)\<close>

text \<open>
  A shallow embedding of the decoder of the Segment Routing Adjacency SID TLV and of its
  JSON constructor. Go values are modelled as follows.
  \<^item> \<open>byte\<close> and \<open>uint8\<close> are \<open>8 word\<close>; \<open>[]byte\<close> is a list of them (a nil slice and
    an empty slice are both the empty list); \<open>int\<close> is \<open>int\<close> (no length here comes near
    the 64-bit bound).
  \<^item> A struct is a record with the fields of the source; the interface
    \<open>AdjacencySIDFlags\<close> is the datatype of its three implementations, and an interface
    or pointer that may be nil is an \<open>option\<close>.
  \<^item> A Go result \<open>(ptr, err)\<close> is a pair of options, so that what is returned beside an
    error is visible; a run-time panic is a value of its own.
\<close>

subsection \<open>Data model\<close>

type_synonym byte = "8 word"

text \<open>
  Modelled from the spec: the type \<open>base.ProtoID\<close> and its constants are declared in
  package \<open>base\<close>, which is not among the sources. The spec names the four tags the
  decoder recognises (ISIS-L1, ISIS-L2, OSPFv2, OSPFv3); every other value of the type
  is \<open>OtherProto\<close>. The four constants are distinct: they label four cases of one Go
  \<open>switch\<close>.
\<close>

datatype ProtoID = ISISL1 | ISISL2 | OSPFv2 | OSPFv3 | OtherProto nat

definition recognized :: "ProtoID \<Rightarrow> bool" where
  "recognized protoID =
     (case protoID of OtherProto n \<Rightarrow> False | ISISL1 \<Rightarrow> True | ISISL2 \<Rightarrow> True
      | OSPFv2 \<Rightarrow> True | OSPFv3 \<Rightarrow> True)"

record adjISISFlags =
  F :: bool
  B :: bool
  V :: bool
  L :: bool
  S :: bool
  P :: bool

record adjOSPFv2Flags =
  B :: bool
  V :: bool
  L :: bool
  G :: bool
  P :: bool

record adjOSPFv3Flags =
  B :: bool
  V :: bool
  L :: bool
  G :: bool
  P :: bool

text \<open>The dynamic type of an \<open>AdjacencySIDFlags\<close> interface value is the constructor.\<close>

datatype AdjacencySIDFlags =
    ISISFlags adjISISFlags
  | OSPFv2Flags adjOSPFv2Flags
  | OSPFv3Flags adjOSPFv3Flags

record AdjacencySIDTLV =
  Flags :: "AdjacencySIDFlags option"
  Weight :: byte
  SID :: "byte list"

subsection \<open>Run-time panics and results\<close>

datatype panic = IndexOutOfRange | MakesliceLenOutOfRange | SliceBoundsOutOfRange

datatype error = SyntaxError | UnmarshalTypeError | CorruptInputError

datatype 'a outcome = Panics panic | Returns "'a option" "error option"

text \<open>\<open>b[p]\<close>: a panic outside \<open>0 \<le> p < len(b)\<close>.\<close>

definition index_byte :: "byte list \<Rightarrow> int \<Rightarrow> panic + byte" where
  "index_byte b p =
     (if 0 \<le> p \<and> p < int (length b) then Inr (b ! nat p) else Inl IndexOutOfRange)"

text \<open>\<open>make([]byte, n)\<close>: a panic for a negative length, else \<open>n\<close> zero bytes.\<close>

definition make_bytes :: "int \<Rightarrow> panic + byte list" where
  "make_bytes n = (if n < 0 then Inl MakesliceLenOutOfRange else Inr (replicate (nat n) 0))"

text \<open>
  \<open>b[lo:hi]\<close>. Go checks \<open>hi\<close> against the capacity; the model checks it against the
  length, which is the same for the only slice expression of the source, whose upper
  bound is \<open>len(b)\<close> itself.
\<close>

definition slice_bytes :: "byte list \<Rightarrow> int \<Rightarrow> int \<Rightarrow> panic + byte list" where
  "slice_bytes b lo hi =
     (if 0 \<le> lo \<and> lo \<le> hi \<and> hi \<le> int (length b)
      then Inr (take (nat (hi - lo)) (drop (nat lo) b))
      else Inl SliceBoundsOutOfRange)"

text \<open>\<open>copy(dst, src)\<close> overwrites the first \<open>min(len(dst), len(src))\<close> bytes of \<open>dst\<close>.\<close>

definition copy_bytes :: "byte list \<Rightarrow> byte list \<Rightarrow> byte list" where
  "copy_bytes dst src =
     (let n = min (length dst) (length src) in take n src @ drop n dst)"

subsection \<open>Flags from the flags octet\<close>

definition UnmarshalAdjacencySIDISISFlags :: "byte \<Rightarrow> AdjacencySIDFlags" where
  "UnmarshalAdjacencySIDISISFlags b =
     ISISFlags \<lparr>F = (b AND 0x80 = 0x80), B = (b AND 0x40 = 0x40), V = (b AND 0x20 = 0x20),
                L = (b AND 0x10 = 0x10), S = (b AND 0x8 = 0x8), P = (b AND 0x4 = 0x4)\<rparr>"

text \<open>The helper of the OSPF branch builds an \<open>adjISISFlags\<close>, as the source does.\<close>

definition UnmarshalAdjacencySIDOSPFFlags :: "byte \<Rightarrow> AdjacencySIDFlags" where
  "UnmarshalAdjacencySIDOSPFFlags b =
     ISISFlags \<lparr>F = (b AND 0x80 = 0x80), B = (b AND 0x40 = 0x40), V = (b AND 0x20 = 0x20),
                L = (b AND 0x10 = 0x10), S = (b AND 0x8 = 0x8), P = (b AND 0x4 = 0x4)\<rparr>"

definition UnmarshalAdjacencySIDOSPFv2Flags :: "byte \<Rightarrow> AdjacencySIDFlags" where
  "UnmarshalAdjacencySIDOSPFv2Flags b =
     OSPFv2Flags \<lparr>adjOSPFv2Flags.B = (b AND 0x80 = 0x80), V = (b AND 0x40 = 0x40),
                  L = (b AND 0x20 = 0x20), G = (b AND 0x10 = 0x10), P = (b AND 0x8 = 0x8)\<rparr>"

definition UnmarshalAdjacencySIDOSPFv3Flags :: "byte \<Rightarrow> AdjacencySIDFlags" where
  "UnmarshalAdjacencySIDOSPFv3Flags b =
     OSPFv3Flags \<lparr>adjOSPFv3Flags.B = (b AND 0x80 = 0x80), V = (b AND 0x40 = 0x40),
                  L = (b AND 0x20 = 0x20), G = (b AND 0x10 = 0x10), P = (b AND 0x8 = 0x8)\<rparr>"

subsection \<open>The binary decoder\<close>

text \<open>
  \<open>UnmarshalAdjacencySIDTLV\<close>, statement by statement: the switch on the tag (reading
  \<open>b[0]\<close> only in its four cases), the weight \<open>b[1]\<close>, the allocation of \<open>len(b) - 4\<close>
  bytes, and the copy of \<open>b[4 : 4 + (len(b) - 4)]\<close>. Every indexing, allocation and slice
  expression can panic; the function has no other way to fail, and returns a nil error.
  The trace line that opens the function (\<open>glog\<close> and \<open>tools.MessageHex\<close>, neither
  among the sources) only formats the bytes for the log and is left out.
\<close>

definition UnmarshalAdjacencySIDTLV :: "ProtoID \<Rightarrow> byte list \<Rightarrow> AdjacencySIDTLV outcome" where
  "UnmarshalAdjacencySIDTLV protoID b =
     (let asid = \<lparr>Flags = None, Weight = 0, SID = []\<rparr>; p = (0::int) in
      case (case protoID of
              ISISL1 \<Rightarrow> (case index_byte b p of Inl e \<Rightarrow> Inl e
                         | Inr x \<Rightarrow> Inr (asid\<lparr>Flags := Some (UnmarshalAdjacencySIDISISFlags x)\<rparr>))
            | ISISL2 \<Rightarrow> (case index_byte b p of Inl e \<Rightarrow> Inl e
                         | Inr x \<Rightarrow> Inr (asid\<lparr>Flags := Some (UnmarshalAdjacencySIDISISFlags x)\<rparr>))
            | OSPFv2 \<Rightarrow> (case index_byte b p of Inl e \<Rightarrow> Inl e
                         | Inr x \<Rightarrow> Inr (asid\<lparr>Flags := Some (UnmarshalAdjacencySIDOSPFFlags x)\<rparr>))
            | OSPFv3 \<Rightarrow> (case index_byte b p of Inl e \<Rightarrow> Inl e
                         | Inr x \<Rightarrow> Inr (asid\<lparr>Flags := Some (UnmarshalAdjacencySIDOSPFFlags x)\<rparr>))
            | OtherProto n \<Rightarrow> Inr asid) of
        Inl e \<Rightarrow> Panics e
      | Inr asid1 \<Rightarrow>
          (let p = p + 1 in
           case index_byte b p of
             Inl e \<Rightarrow> Panics e
           | Inr w \<Rightarrow>
               (let asid2 = asid1\<lparr>Weight := w\<rparr>;
                    p = p + 1;
                    sl = int (length b) - 4 in
                case make_bytes (int (length b) - 4) of
                  Inl e \<Rightarrow> Panics e
                | Inr s \<Rightarrow>
                    (let p = p + 2 in
                     case slice_bytes b p (p + sl) of
                       Inl e \<Rightarrow> Panics e
                     | Inr src \<Rightarrow> Returns (Some (asid2\<lparr>SID := copy_bytes s src\<rparr>)) None))))"

subsection \<open>JSON values and \<open>encoding/json\<close>\<close>

text \<open>
  \<open>encoding/json\<close> and \<open>encoding/base64\<close> belong to the Go standard library, not to the
  repository. A \<open>json.RawMessage\<close> is modelled by the JSON value its bytes spell, or by
  \<open>Malformed\<close> when the bytes are not one well-formed JSON text. A number literal made
  only of digits is \<open>JUInt\<close> with its value; every other number literal (a sign, a
  fraction or an exponent) is \<open>JNumOther\<close>: decoding into a \<open>uint8\<close> goes through
  \<open>strconv.ParseUint\<close>, which accepts the first kind only. The members of an object
  are kept in the order of the text.
\<close>

datatype json =
    JNull
  | JBool bool
  | JUInt nat
  | JNumOther
  | JString string
  | JArray "json list"
  | JObject "(string \<times> json) list"

datatype RawMessage = Raw json | Malformed

text \<open>
  \<open>json.Unmarshal(v, &x)\<close> for the four target types of the source. Each function
  takes the raw message and the value the target holds, and returns the error or the
  value the target holds afterwards. For every target a malformed text is a
  \<open>SyntaxError\<close> and a value of the wrong kind an \<open>UnmarshalTypeError\<close>; \<open>null\<close> is
  no error: it leaves a \<open>bool\<close> or \<open>uint8\<close> as it is and sets a map or a slice to nil.
\<close>

fun Unmarshal_bool :: "RawMessage \<Rightarrow> bool \<Rightarrow> error + bool" where
  "Unmarshal_bool Malformed x = Inl SyntaxError"
| "Unmarshal_bool (Raw JNull) x = Inr x"
| "Unmarshal_bool (Raw (JBool t)) x = Inr t"
| "Unmarshal_bool (Raw j) x = Inl UnmarshalTypeError"

fun Unmarshal_uint8 :: "RawMessage \<Rightarrow> byte \<Rightarrow> error + byte" where
  "Unmarshal_uint8 Malformed x = Inl SyntaxError"
| "Unmarshal_uint8 (Raw JNull) x = Inr x"
| "Unmarshal_uint8 (Raw (JUInt n)) x =
     (if n \<le> 255 then Inr (of_nat n) else Inl UnmarshalTypeError)"
| "Unmarshal_uint8 (Raw j) x = Inl UnmarshalTypeError"

text \<open>
  The elements of a JSON array decoded into a \<open>[]byte\<close>: each one into a fresh zero
  element. The decoder records the first element error and returns it at the end.
\<close>

fun Unmarshal_elems :: "json list \<Rightarrow> error + byte list" where
  "Unmarshal_elems [] = Inr []"
| "Unmarshal_elems (j # js) =
     (case Unmarshal_uint8 (Raw j) 0 of
        Inl err \<Rightarrow> Inl err
      | Inr w \<Rightarrow> (case Unmarshal_elems js of Inl err \<Rightarrow> Inl err | Inr ws \<Rightarrow> Inr (w # ws)))"

text \<open>
  A \<open>[]byte\<close> target takes a JSON string as standard base64 and a JSON array element
  by element. The base64 decoder is the parameter \<open>base64\<close> (\<open>None\<close> where
  \<open>base64.StdEncoding\<close> reports corrupt input). The slice the source decodes into is
  nil before the call, so no old element shows through.
\<close>

fun Unmarshal_bytes :: "(string \<Rightarrow> byte list option) \<Rightarrow> RawMessage \<Rightarrow> byte list \<Rightarrow> error + byte list" where
  "Unmarshal_bytes base64 Malformed x = Inl SyntaxError"
| "Unmarshal_bytes base64 (Raw JNull) x = Inr []"
| "Unmarshal_bytes base64 (Raw (JString s)) x =
     (case base64 s of None \<Rightarrow> Inl CorruptInputError | Some bs \<Rightarrow> Inr bs)"
| "Unmarshal_bytes base64 (Raw (JArray js)) x = Unmarshal_elems js"
| "Unmarshal_bytes base64 (Raw j) x = Inl UnmarshalTypeError"

text \<open>
  A \<open>map[string]json.RawMessage\<close> target keeps the entries it has and stores every
  member of the object, a later member over an earlier one of the same key. A nil map
  is the empty map: a lookup in either finds nothing.
\<close>

fun Unmarshal_object :: "RawMessage \<Rightarrow> (string \<rightharpoonup> RawMessage) \<Rightarrow> error + (string \<rightharpoonup> RawMessage)" where
  "Unmarshal_object Malformed m = Inl SyntaxError"
| "Unmarshal_object (Raw JNull) m = Inr Map.empty"
| "Unmarshal_object (Raw (JObject kvs)) m = Inr (m ++ map_of (rev (map (apsnd Raw) kvs)))"
| "Unmarshal_object (Raw j) m = Inl UnmarshalTypeError"

subsection \<open>Flags to JSON\<close>

text \<open>
  \<open>json.Marshal\<close> of the anonymous struct of each \<open>MarshalJSON\<close>: an object with one
  member per field, in the order of the fields, under the key of the field's tag. It
  cannot fail on booleans.
\<close>

definition adjISISFlags_MarshalJSON :: "adjISISFlags \<Rightarrow> RawMessage \<times> error option" where
  "adjISISFlags_MarshalJSON f =
     (Raw (JObject [(''f_flag'', JBool (F f)), (''b_flag'', JBool (adjISISFlags.B f)),
                    (''v_flag'', JBool (adjISISFlags.V f)), (''l_flag'', JBool (adjISISFlags.L f)),
                    (''s_flag'', JBool (S f)), (''p_flag'', JBool (adjISISFlags.P f))]), None)"

definition adjOSPFv2Flags_MarshalJSON :: "adjOSPFv2Flags \<Rightarrow> RawMessage \<times> error option" where
  "adjOSPFv2Flags_MarshalJSON f =
     (Raw (JObject [(''b_flag'', JBool (adjOSPFv2Flags.B f)), (''v_flag'', JBool (adjOSPFv2Flags.V f)),
                    (''l_flag'', JBool (adjOSPFv2Flags.L f)), (''s_flag'', JBool (adjOSPFv2Flags.G f)),
                    (''p_flag'', JBool (adjOSPFv2Flags.P f))]), None)"

definition adjOSPFv3Flags_MarshalJSON :: "adjOSPFv3Flags \<Rightarrow> RawMessage \<times> error option" where
  "adjOSPFv3Flags_MarshalJSON f =
     (Raw (JObject [(''b_flag'', JBool (adjOSPFv3Flags.B f)), (''v_flag'', JBool (adjOSPFv3Flags.V f)),
                    (''l_flag'', JBool (adjOSPFv3Flags.L f)), (''s_flag'', JBool (adjOSPFv3Flags.G f)),
                    (''p_flag'', JBool (adjOSPFv3Flags.P f))]), None)"

text \<open>The method call through the interface dispatches on the dynamic type.\<close>

definition MarshalJSON :: "AdjacencySIDFlags \<Rightarrow> RawMessage \<times> error option" where
  "MarshalJSON fl =
     (case fl of
        ISISFlags f \<Rightarrow> adjISISFlags_MarshalJSON f
      | OSPFv2Flags f \<Rightarrow> adjOSPFv2Flags_MarshalJSON f
      | OSPFv3Flags f \<Rightarrow> adjOSPFv3Flags_MarshalJSON f)"

subsection \<open>Flags from a JSON field map\<close>

text \<open>
  Each flag of the three builders is set by the same four lines of the source:
  \<open>f.X = false; if v, ok := b[key]; ok { if err := json.Unmarshal(v, &f.X); err != nil
  { return nil, err } }\<close>. \<open>flag_field b key\<close> is that block: the error to return, or
  the value of \<open>f.X\<close> after it.
\<close>

definition flag_field :: "(string \<rightharpoonup> RawMessage) \<Rightarrow> string \<Rightarrow> error + bool" where
  "flag_field b key = (case b key of None \<Rightarrow> Inr False | Some v \<Rightarrow> Unmarshal_bool v False)"

definition buildAdjISISFlags :: "(string \<rightharpoonup> RawMessage) \<Rightarrow> AdjacencySIDFlags option \<times> error option" where
  "buildAdjISISFlags b =
     (case flag_field b ''f_flag'' of Inl err \<Rightarrow> (None, Some err) | Inr f' \<Rightarrow>
      (case flag_field b ''b_flag'' of Inl err \<Rightarrow> (None, Some err) | Inr b' \<Rightarrow>
      (case flag_field b ''v_flag'' of Inl err \<Rightarrow> (None, Some err) | Inr v' \<Rightarrow>
      (case flag_field b ''l_flag'' of Inl err \<Rightarrow> (None, Some err) | Inr l' \<Rightarrow>
      (case flag_field b ''s_flag'' of Inl err \<Rightarrow> (None, Some err) | Inr s' \<Rightarrow>
      (case flag_field b ''p_flag'' of Inl err \<Rightarrow> (None, Some err) | Inr p' \<Rightarrow>
        (Some (ISISFlags \<lparr>F = f', B = b', V = v', L = l', S = s', P = p'\<rparr>), None)))))))"

definition buildAdjOSPFv2Flags :: "(string \<rightharpoonup> RawMessage) \<Rightarrow> AdjacencySIDFlags option \<times> error option" where
  "buildAdjOSPFv2Flags b =
     (case flag_field b ''b_flag'' of Inl err \<Rightarrow> (None, Some err) | Inr b' \<Rightarrow>
      (case flag_field b ''v_flag'' of Inl err \<Rightarrow> (None, Some err) | Inr v' \<Rightarrow>
      (case flag_field b ''l_flag'' of Inl err \<Rightarrow> (None, Some err) | Inr l' \<Rightarrow>
      (case flag_field b ''g_flag'' of Inl err \<Rightarrow> (None, Some err) | Inr g' \<Rightarrow>
      (case flag_field b ''p_flag'' of Inl err \<Rightarrow> (None, Some err) | Inr p' \<Rightarrow>
        (Some (OSPFv2Flags \<lparr>adjOSPFv2Flags.B = b', V = v', L = l', G = g', P = p'\<rparr>), None))))))"

definition buildAdjOSPFv3Flags :: "(string \<rightharpoonup> RawMessage) \<Rightarrow> AdjacencySIDFlags option \<times> error option" where
  "buildAdjOSPFv3Flags b =
     (case flag_field b ''b_flag'' of Inl err \<Rightarrow> (None, Some err) | Inr b' \<Rightarrow>
      (case flag_field b ''v_flag'' of Inl err \<Rightarrow> (None, Some err) | Inr v' \<Rightarrow>
      (case flag_field b ''l_flag'' of Inl err \<Rightarrow> (None, Some err) | Inr l' \<Rightarrow>
      (case flag_field b ''g_flag'' of Inl err \<Rightarrow> (None, Some err) | Inr g' \<Rightarrow>
      (case flag_field b ''p_flag'' of Inl err \<Rightarrow> (None, Some err) | Inr p' \<Rightarrow>
        (Some (OSPFv3Flags \<lparr>adjOSPFv3Flags.B = b', V = v', L = l', G = g', P = p'\<rparr>), None))))))"

subsection \<open>The JSON constructor\<close>

text \<open>
  \<open>BuildAdjacencySID\<close>: the three \<open>if v, ok := b[key]; ok\<close> blocks in the order of the
  source. \<open>Inl err\<close> inside stands for \<open>return nil, err\<close>. An unrecognised tag leaves
  the flags unset after the flags object itself has been decoded.
\<close>

definition BuildAdjacencySID ::
  "(string \<Rightarrow> byte list option) \<Rightarrow> ProtoID \<Rightarrow> (string \<rightharpoonup> RawMessage) \<Rightarrow> AdjacencySIDTLV option \<times> error option" where
  "BuildAdjacencySID base64 protoID b =
     (let asid = \<lparr>Flags = None, Weight = 0, SID = []\<rparr> in
      case (case b ''flags'' of
              None \<Rightarrow> Inr asid
            | Some v \<Rightarrow>
                (case Unmarshal_object v Map.empty of
                   Inl err \<Rightarrow> Inl err
                 | Inr fo \<Rightarrow>
                     (case protoID of
                        ISISL1 \<Rightarrow> (case buildAdjISISFlags fo of
                                      (f, Some err) \<Rightarrow> Inl err
                                    | (f, None) \<Rightarrow> Inr (asid\<lparr>Flags := f\<rparr>))
                      | ISISL2 \<Rightarrow> (case buildAdjISISFlags fo of
                                      (f, Some err) \<Rightarrow> Inl err
                                    | (f, None) \<Rightarrow> Inr (asid\<lparr>Flags := f\<rparr>))
                      | OSPFv2 \<Rightarrow> (case buildAdjOSPFv2Flags fo of
                                      (f, Some err) \<Rightarrow> Inl err
                                    | (f, None) \<Rightarrow> Inr (asid\<lparr>Flags := f\<rparr>))
                      | OSPFv3 \<Rightarrow> (case buildAdjOSPFv3Flags fo of
                                      (f, Some err) \<Rightarrow> Inl err
                                    | (f, None) \<Rightarrow> Inr (asid\<lparr>Flags := f\<rparr>))
                      | OtherProto n \<Rightarrow> Inr asid))) of
        Inl err \<Rightarrow> (None, Some err)
      | Inr asid1 \<Rightarrow>
          (case (case b ''weight'' of
                   None \<Rightarrow> Inr asid1
                 | Some v \<Rightarrow>
                     (case Unmarshal_uint8 v (Weight asid1) of
                        Inl err \<Rightarrow> Inl err
                      | Inr w \<Rightarrow> Inr (asid1\<lparr>Weight := w\<rparr>))) of
             Inl err \<Rightarrow> (None, Some err)
           | Inr asid2 \<Rightarrow>
               (case b ''sid'' of
                  None \<Rightarrow> (Some asid2, None)
                | Some v \<Rightarrow>
                    (case Unmarshal_bytes base64 v (SID asid2) of
                       Inl err \<Rightarrow> (None, Some err)
                     | Inr s \<Rightarrow> (Some (asid2\<lparr>SID := s\<rparr>), None)))))"

subsection \<open>Vocabulary of the properties\<close>

text \<open>
  The keys each builder reads, in the order of the source, by the tag under which
  \<open>BuildAdjacencySID\<close> calls it.
\<close>

definition flag_keys :: "ProtoID \<Rightarrow> string list" where
  "flag_keys protoID =
     (case protoID of
        ISISL1 \<Rightarrow> [''f_flag'', ''b_flag'', ''v_flag'', ''l_flag'', ''s_flag'', ''p_flag'']
      | ISISL2 \<Rightarrow> [''f_flag'', ''b_flag'', ''v_flag'', ''l_flag'', ''s_flag'', ''p_flag'']
      | OSPFv2 \<Rightarrow> [''b_flag'', ''v_flag'', ''l_flag'', ''g_flag'', ''p_flag'']
      | OSPFv3 \<Rightarrow> [''b_flag'', ''v_flag'', ''l_flag'', ''g_flag'', ''p_flag'']
      | OtherProto n \<Rightarrow> [])"

text \<open>The members of a JSON object as a map, a later member over an earlier one.\<close>

fun object_members :: "RawMessage \<Rightarrow> (string \<rightharpoonup> RawMessage)" where
  "object_members (Raw (JObject kvs)) = map_of (rev (map (apsnd Raw) kvs))"
| "object_members v = Map.empty"

text \<open>
  The declared shapes, in the words of the specification: a flag is a JSON boolean, the
  weight a number within 0 to 255, the SID an array of bytes, the flags a JSON object.
\<close>

fun spec_is_boolean :: "RawMessage \<Rightarrow> bool" where
  "spec_is_boolean (Raw (JBool t)) = True"
| "spec_is_boolean v = False"

fun spec_is_weight :: "RawMessage \<Rightarrow> bool" where
  "spec_is_weight (Raw (JUInt n)) = (n \<le> 255)"
| "spec_is_weight v = False"

fun spec_is_byte_array :: "RawMessage \<Rightarrow> bool" where
  "spec_is_byte_array (Raw (JArray js)) = list_all (\<lambda>j. spec_is_weight (Raw j)) js"
| "spec_is_byte_array v = False"

fun spec_is_object :: "RawMessage \<Rightarrow> bool" where
  "spec_is_object (Raw (JObject kvs)) = True"
| "spec_is_object v = False"

text \<open>
  A present key whose value does not have its declared shape: the condition under
  which the specification has \<open>BuildAdjacencySID\<close> fail.
\<close>

definition spec_shape_violation :: "ProtoID \<Rightarrow> (string \<rightharpoonup> RawMessage) \<Rightarrow> bool" where
  "spec_shape_violation protoID b =
     ((case b ''flags'' of
         None \<Rightarrow> False
       | Some v \<Rightarrow>
           (if spec_is_object v
            then list_ex (\<lambda>key. case object_members v key of
                                  None \<Rightarrow> False
                                | Some x \<Rightarrow> (if spec_is_boolean x then False else True))
                   (flag_keys protoID)
            else True))
      \<or> (case b ''weight'' of None \<Rightarrow> False | Some v \<Rightarrow> (if spec_is_weight v then False else True))
      \<or> (case b ''sid'' of None \<Rightarrow> False | Some v \<Rightarrow> (if spec_is_byte_array v then False else True)))"

text \<open>
  What \<open>json.Unmarshal\<close> takes without an error for each target: \<open>null\<close> besides the
  declared shape, and for the SID a base64 string or an array whose elements are
  \<open>null\<close> or bytes.
\<close>

definition accepts_bool :: "RawMessage \<Rightarrow> bool" where
  "accepts_bool v = (v = Raw JNull \<or> spec_is_boolean v)"

definition accepts_uint8 :: "RawMessage \<Rightarrow> bool" where
  "accepts_uint8 v = (v = Raw JNull \<or> spec_is_weight v)"

fun accepts_bytes :: "(string \<Rightarrow> byte list option) \<Rightarrow> RawMessage \<Rightarrow> bool" where
  "accepts_bytes base64 (Raw JNull) = True"
| "accepts_bytes base64 (Raw (JString s)) = (case base64 s of None \<Rightarrow> False | Some bs \<Rightarrow> True)"
| "accepts_bytes base64 (Raw (JArray js)) = list_all (\<lambda>j. accepts_uint8 (Raw j)) js"
| "accepts_bytes base64 v = False"

definition accepts_object :: "RawMessage \<Rightarrow> bool" where
  "accepts_object v = (v = Raw JNull \<or> spec_is_object v)"

definition flag_rejected :: "(string \<rightharpoonup> RawMessage) \<Rightarrow> string \<Rightarrow> bool" where
  "flag_rejected fo key =
     (case fo key of None \<Rightarrow> False | Some x \<Rightarrow> (if accepts_bool x then False else True))"

definition decode_rejects ::
  "(string \<Rightarrow> byte list option) \<Rightarrow> ProtoID \<Rightarrow> (string \<rightharpoonup> RawMessage) \<Rightarrow> bool" where
  "decode_rejects base64 protoID b =
     ((case b ''flags'' of
         None \<Rightarrow> False
       | Some v \<Rightarrow>
           (if accepts_object v
            then list_ex (flag_rejected (object_members v)) (flag_keys protoID)
            else True))
      \<or> (case b ''weight'' of None \<Rightarrow> False | Some v \<Rightarrow> (if accepts_uint8 v then False else True))
      \<or> (case b ''sid'' of None \<Rightarrow> False | Some v \<Rightarrow> (if accepts_bytes base64 v then False else True)))"

text \<open>
  The named flags of a Flags value, as the methods \<open>IsF\<close>, \<open>IsB\<close>, \<open>IsV\<close>, \<open>IsL\<close>,
  \<open>IsS\<close>, \<open>IsG\<close> and \<open>IsP\<close> of the source return them; \<open>None\<close> where the dynamic
  type has no such method (\<open>adjISISFlags\<close> has no \<open>IsG\<close>, the OSPF types have no
  \<open>IsF\<close> and no \<open>IsS\<close>).
\<close>

definition IsF :: "AdjacencySIDFlags \<Rightarrow> bool option" where
  "IsF fl = (case fl of ISISFlags f \<Rightarrow> Some (F f) | OSPFv2Flags f \<Rightarrow> None | OSPFv3Flags f \<Rightarrow> None)"

definition IsB :: "AdjacencySIDFlags \<Rightarrow> bool option" where
  "IsB fl = (case fl of ISISFlags f \<Rightarrow> Some (adjISISFlags.B f)
             | OSPFv2Flags f \<Rightarrow> Some (adjOSPFv2Flags.B f)
             | OSPFv3Flags f \<Rightarrow> Some (adjOSPFv3Flags.B f))"

definition IsV :: "AdjacencySIDFlags \<Rightarrow> bool option" where
  "IsV fl = (case fl of ISISFlags f \<Rightarrow> Some (adjISISFlags.V f)
             | OSPFv2Flags f \<Rightarrow> Some (adjOSPFv2Flags.V f)
             | OSPFv3Flags f \<Rightarrow> Some (adjOSPFv3Flags.V f))"

definition IsL :: "AdjacencySIDFlags \<Rightarrow> bool option" where
  "IsL fl = (case fl of ISISFlags f \<Rightarrow> Some (adjISISFlags.L f)
             | OSPFv2Flags f \<Rightarrow> Some (adjOSPFv2Flags.L f)
             | OSPFv3Flags f \<Rightarrow> Some (adjOSPFv3Flags.L f))"

definition IsS :: "AdjacencySIDFlags \<Rightarrow> bool option" where
  "IsS fl = (case fl of ISISFlags f \<Rightarrow> Some (S f) | OSPFv2Flags f \<Rightarrow> None | OSPFv3Flags f \<Rightarrow> None)"

definition IsG :: "AdjacencySIDFlags \<Rightarrow> bool option" where
  "IsG fl = (case fl of ISISFlags f \<Rightarrow> None
             | OSPFv2Flags f \<Rightarrow> Some (adjOSPFv2Flags.G f)
             | OSPFv3Flags f \<Rightarrow> Some (adjOSPFv3Flags.G f))"

definition IsP :: "AdjacencySIDFlags \<Rightarrow> bool option" where
  "IsP fl = (case fl of ISISFlags f \<Rightarrow> Some (adjISISFlags.P f)
             | OSPFv2Flags f \<Rightarrow> Some (adjOSPFv2Flags.P f)
             | OSPFv3Flags f \<Rightarrow> Some (adjOSPFv3Flags.P f))"

text \<open>
  The flags octet re-derived from a Flags value, in the words of the specification:
  each named bit of the layout of the tag back at its position, most significant bit
  first (ISIS-L1 and ISIS-L2: F B V L S P, then two reserved bits; OSPFv2 and OSPFv3:
  B V L G P, then three reserved bits), reserved bits zero. A flag the value does not
  have, or has false, sets no bit. \<open>spec_tag_named_bits\<close> is the mask of the named
  positions of the tag, the bits the comparison is about.
\<close>

fun bit_of :: "bool option \<Rightarrow> byte \<Rightarrow> byte" where
  "bit_of None m = 0"
| "bit_of (Some t) m = (if t then m else 0)"

definition spec_flags_octet :: "ProtoID \<Rightarrow> AdjacencySIDFlags \<Rightarrow> byte" where
  "spec_flags_octet protoID fl =
     (case protoID of
        ISISL1 \<Rightarrow> bit_of (IsF fl) 0x80 OR bit_of (IsB fl) 0x40 OR bit_of (IsV fl) 0x20
                  OR bit_of (IsL fl) 0x10 OR bit_of (IsS fl) 0x8 OR bit_of (IsP fl) 0x4
      | ISISL2 \<Rightarrow> bit_of (IsF fl) 0x80 OR bit_of (IsB fl) 0x40 OR bit_of (IsV fl) 0x20
                  OR bit_of (IsL fl) 0x10 OR bit_of (IsS fl) 0x8 OR bit_of (IsP fl) 0x4
      | OSPFv2 \<Rightarrow> bit_of (IsB fl) 0x80 OR bit_of (IsV fl) 0x40 OR bit_of (IsL fl) 0x20
                  OR bit_of (IsG fl) 0x10 OR bit_of (IsP fl) 0x8
      | OSPFv3 \<Rightarrow> bit_of (IsB fl) 0x80 OR bit_of (IsV fl) 0x40 OR bit_of (IsL fl) 0x20
                  OR bit_of (IsG fl) 0x10 OR bit_of (IsP fl) 0x8
      | OtherProto n \<Rightarrow> 0)"

definition spec_tag_named_bits :: "ProtoID \<Rightarrow> byte" where
  "spec_tag_named_bits protoID =
     (case protoID of ISISL1 \<Rightarrow> 0xFC | ISISL2 \<Rightarrow> 0xFC | OSPFv2 \<Rightarrow> 0xF8 | OSPFv3 \<Rightarrow> 0xF8
      | OtherProto n \<Rightarrow> 0)"

subsection \<open>Auxiliary definitions of the proofs\<close>

text \<open>
  The value a flag gets from a field map that no error stops, and the three blocks of
  \<open>BuildAdjacencySID\<close> as functions of the object built so far; lemma
  \<open>BuildAdjacencySID_blocks\<close> below shows that they compose to the constructor.
\<close>

definition flag_value :: "(string \<rightharpoonup> RawMessage) \<Rightarrow> string \<Rightarrow> bool" where
  "flag_value fo key = (case fo key of Some (Raw (JBool t)) \<Rightarrow> t | _ \<Rightarrow> False)"

definition flags_block :: "ProtoID \<Rightarrow> (string \<rightharpoonup> RawMessage) \<Rightarrow> AdjacencySIDTLV \<Rightarrow> error + AdjacencySIDTLV" where
  "flags_block protoID b asid =
     (case b ''flags'' of
        None \<Rightarrow> Inr asid
      | Some v \<Rightarrow>
          (case Unmarshal_object v Map.empty of
             Inl err \<Rightarrow> Inl err
           | Inr fo \<Rightarrow>
               (case protoID of
                  ISISL1 \<Rightarrow> (case buildAdjISISFlags fo of
                                (f, Some err) \<Rightarrow> Inl err
                              | (f, None) \<Rightarrow> Inr (asid\<lparr>Flags := f\<rparr>))
                | ISISL2 \<Rightarrow> (case buildAdjISISFlags fo of
                                (f, Some err) \<Rightarrow> Inl err
                              | (f, None) \<Rightarrow> Inr (asid\<lparr>Flags := f\<rparr>))
                | OSPFv2 \<Rightarrow> (case buildAdjOSPFv2Flags fo of
                                (f, Some err) \<Rightarrow> Inl err
                              | (f, None) \<Rightarrow> Inr (asid\<lparr>Flags := f\<rparr>))
                | OSPFv3 \<Rightarrow> (case buildAdjOSPFv3Flags fo of
                                (f, Some err) \<Rightarrow> Inl err
                              | (f, None) \<Rightarrow> Inr (asid\<lparr>Flags := f\<rparr>))
                | OtherProto n \<Rightarrow> Inr asid)))"

definition weight_block :: "(string \<rightharpoonup> RawMessage) \<Rightarrow> AdjacencySIDTLV \<Rightarrow> error + AdjacencySIDTLV" where
  "weight_block b asid =
     (case b ''weight'' of
        None \<Rightarrow> Inr asid
      | Some v \<Rightarrow>
          (case Unmarshal_uint8 v (Weight asid) of
             Inl err \<Rightarrow> Inl err
           | Inr w \<Rightarrow> Inr (asid\<lparr>Weight := w\<rparr>)))"

definition sid_block ::
  "(string \<Rightarrow> byte list option) \<Rightarrow> (string \<rightharpoonup> RawMessage) \<Rightarrow> AdjacencySIDTLV \<Rightarrow> error + AdjacencySIDTLV" where
  "sid_block base64 b asid =
     (case b ''sid'' of
        None \<Rightarrow> Inr asid
      | Some v \<Rightarrow>
          (case Unmarshal_bytes base64 v (SID asid) of
             Inl err \<Rightarrow> Inl err
           | Inr s \<Rightarrow> Inr (asid\<lparr>SID := s\<rparr>)))"

definition flags_rejected :: "ProtoID \<Rightarrow> (string \<rightharpoonup> RawMessage) \<Rightarrow> bool" where
  "flags_rejected protoID b =
     (case b ''flags'' of
         None \<Rightarrow> False
       | Some v \<Rightarrow>
           (if accepts_object v
            then list_ex (flag_rejected (object_members v)) (flag_keys protoID)
            else True))"


section \<open>Properties of the binary decoder\<close>

lemmas decode_defs = UnmarshalAdjacencySIDTLV_def index_byte_def make_bytes_def slice_bytes_def
  copy_bytes_def Let_def

text \<open>On four bytes or more the decoder returns, with a nil error, for every tag.\<close>

lemma decode_long:
  assumes "4 \<le> length b"
  shows "UnmarshalAdjacencySIDTLV protoID b =
    Returns (Some \<lparr>Flags = (case protoID of
                 ISISL1 \<Rightarrow> Some (UnmarshalAdjacencySIDISISFlags (b ! 0))
               | ISISL2 \<Rightarrow> Some (UnmarshalAdjacencySIDISISFlags (b ! 0))
               | OSPFv2 \<Rightarrow> Some (UnmarshalAdjacencySIDOSPFFlags (b ! 0))
               | OSPFv3 \<Rightarrow> Some (UnmarshalAdjacencySIDOSPFFlags (b ! 0))
               | OtherProto n \<Rightarrow> None),
             Weight = b ! 1, SID = drop 4 b\<rparr>) None"
  using assms by (cases protoID) (auto simp add: decode_defs)

text \<open>On fewer than four bytes it panics, for every tag.\<close>

lemma decode_short:
  assumes "length b < 4"
  shows "\<exists>e. UnmarshalAdjacencySIDTLV protoID b = Panics e"
  using assms by (cases protoID) (auto simp add: decode_defs)

text \<open>A mask of one bit leaves the bit or nothing.\<close>

lemma and_exp_cases: "(b::byte) AND 2 ^ n = 2 ^ n \<or> b AND 2 ^ n = 0"
proof (cases "bit b n")
  case True
  have "b AND 2 ^ n = 2 ^ n"
    by (rule bit_eqI) (auto simp add: bit_and_iff bit_exp_iff True)
  then show ?thesis ..
next
  case False
  then have "b AND 2 ^ n = 0"
    by (simp add: and_exp_eq_0_iff_not_bit)
  then show ?thesis ..
qed

lemma bit_test:
  "(if (b::byte) AND 0x80 = 0x80 then 0x80 else 0) = b AND 0x80"
  "(if b AND 0x40 = 0x40 then 0x40 else 0) = b AND 0x40"
  "(if b AND 0x20 = 0x20 then 0x20 else 0) = b AND 0x20"
  "(if b AND 0x10 = 0x10 then 0x10 else 0) = b AND 0x10"
  "(if b AND 0x8 = 0x8 then 0x8 else 0) = b AND 0x8"
  "(if b AND 0x4 = 0x4 then 0x4 else 0) = b AND 0x4"
  using and_exp_cases[of b 7] and_exp_cases[of b 6] and_exp_cases[of b 5]
    and_exp_cases[of b 4] and_exp_cases[of b 3] and_exp_cases[of b 2]
  by auto

lemma six_bits: "(b AND 0x80) OR (b AND 0x40) OR (b AND 0x20) OR (b AND 0x10) OR (b AND 0x8)
    OR (b AND 0x4) = (b::byte) AND 0xFC"
proof -
  have "(b AND 0x80) OR (b AND 0x40) OR (b AND 0x20) OR (b AND 0x10) OR (b AND 0x8) OR (b AND 0x4)
     = b AND (0x80 OR 0x40 OR 0x20 OR 0x10 OR 0x8 OR 0x4)"
    by (simp only: bit.conj_disj_distrib)
  also have "\<dots> = b AND 0xFC" by simp
  finally show ?thesis .
qed

lemma five_bits: "(b AND 0x80) OR (b AND 0x40) OR (b AND 0x20) OR (b AND 0x10) OR (b AND 0x8)
    = (b::byte) AND 0xF8"
proof -
  have "(b AND 0x80) OR (b AND 0x40) OR (b AND 0x20) OR (b AND 0x10) OR (b AND 0x8)
     = b AND (0x80 OR 0x40 OR 0x20 OR 0x10 OR 0x8)"
    by (simp only: bit.conj_disj_distrib)
  also have "\<dots> = b AND 0xF8" by simp
  finally show ?thesis .
qed

lemmas Is_defs = IsF_def IsB_def IsV_def IsL_def IsS_def IsG_def IsP_def

text \<open>
  The ISIS helper under the ISIS layout, and the two OSPF helpers the decoder does not
  call under the OSPF layout, give back every named bit of the octet.
\<close>

lemma octet_of_ISIS_decode:
  "spec_flags_octet ISISL1 (UnmarshalAdjacencySIDISISFlags x) = x AND 0xFC"
  "spec_flags_octet ISISL2 (UnmarshalAdjacencySIDISISFlags x) = x AND 0xFC"
  by (simp_all add: spec_flags_octet_def UnmarshalAdjacencySIDISISFlags_def Is_defs
      bit_test six_bits)

lemma octet_of_OSPFv2_decode:
  "spec_flags_octet OSPFv2 (UnmarshalAdjacencySIDOSPFv2Flags x) = x AND 0xF8"
  by (simp add: spec_flags_octet_def UnmarshalAdjacencySIDOSPFv2Flags_def Is_defs
      bit_test five_bits)

lemma octet_of_OSPFv3_decode:
  "spec_flags_octet OSPFv3 (UnmarshalAdjacencySIDOSPFv3Flags x) = x AND 0xF8"
  by (simp add: spec_flags_octet_def UnmarshalAdjacencySIDOSPFv3Flags_def Is_defs
      bit_test five_bits)

text \<open>Under the two ISIS tags the decoder's flags give the octet back on its named bits.\<close>

lemma isis_flags_octet_roundtrip:
  assumes "4 \<le> length b"
  shows "\<exists>asid fl. UnmarshalAdjacencySIDTLV ISISL1 b = Returns (Some asid) None
           \<and> Flags asid = Some fl
           \<and> spec_flags_octet ISISL1 fl = (b ! 0) AND spec_tag_named_bits ISISL1"
    and "\<exists>asid fl. UnmarshalAdjacencySIDTLV ISISL2 b = Returns (Some asid) None
           \<and> Flags asid = Some fl
           \<and> spec_flags_octet ISISL2 fl = (b ! 0) AND spec_tag_named_bits ISISL2"
  using assms
  by (simp_all add: decode_long octet_of_ISIS_decode spec_tag_named_bits_def)

section \<open>The claims about the binary decoder\<close>

text \<open>
  C1. Under the OSPFv2 or OSPFv3 tag the flags octet is to give the five OSPF flags, B
  from bit 7, V from bit 6, L from bit 5, G from bit 4 and P from bit 3. The decoder
  calls \<open>UnmarshalAdjacencySIDOSPFFlags\<close> instead, which fills an \<open>adjISISFlags\<close>
  with the ISIS positions: on the octet \<open>0x80\<close> the result has F set and B clear, where
  \<open>UnmarshalAdjacencySIDOSPFv2Flags\<close>, which the decoder never calls, sets B.
\<close>

theorem ospf_branch_decodes_isis_layout:
  "UnmarshalAdjacencySIDTLV OSPFv2 [0x80, 0, 0, 0] =
     Returns (Some \<lparr>Flags = Some (ISISFlags \<lparr>F = True, B = False, V = False, L = False,
                                               S = False, P = False\<rparr>),
                    Weight = 0, SID = []\<rparr>) None
   \<and> UnmarshalAdjacencySIDTLV OSPFv3 [0x80, 0, 0, 0] =
     Returns (Some \<lparr>Flags = Some (ISISFlags \<lparr>F = True, B = False, V = False, L = False,
                                               S = False, P = False\<rparr>),
                    Weight = 0, SID = []\<rparr>) None
   \<and> UnmarshalAdjacencySIDOSPFv2Flags 0x80 =
     OSPFv2Flags \<lparr>adjOSPFv2Flags.B = True, V = False, L = False, G = False, P = False\<rparr>"
  by (simp add: decode_defs UnmarshalAdjacencySIDOSPFFlags_def
      UnmarshalAdjacencySIDOSPFv2Flags_def)

text \<open>
  C2. A slice shorter than four bytes is to be refused with an error. The decoder has
  no length check: on three bytes it reads the flags and the weight and then panics
  in \<open>make([]byte, len(b) - 4)\<close>, whose length is \<open>-1\<close>; on an empty slice it panics at
  \<open>b[0]\<close>. It returns no error on any input (lemma \<open>decode_short\<close> has the general
  statement).
\<close>

theorem short_input_panics:
  "UnmarshalAdjacencySIDTLV ISISL2 [0xB4, 0x0A, 0x00] = Panics MakesliceLenOutOfRange
   \<and> UnmarshalAdjacencySIDTLV OSPFv2 [] = Panics IndexOutOfRange"
  by (simp add: decode_defs)

text \<open>
  C3. For a recognised tag and a slice \<open>b\<close> of at least four bytes the decoder returns
  an object whose SID is \<open>b\<close> from offset 4 to the end, of length \<open>len(b) - 4\<close> (empty
  when \<open>len(b) = 4\<close>), and whose weight is the byte at offset 1.
\<close>

theorem sid_is_the_bytes_from_offset_4:
  assumes "recognized protoID" and "4 \<le> length b"
  shows "\<exists>asid. UnmarshalAdjacencySIDTLV protoID b = Returns (Some asid) None
           \<and> SID asid = drop 4 b
           \<and> int (length (SID asid)) = int (length b) - 4
           \<and> Weight asid = b ! 1
           \<and> (length b = 4 \<longrightarrow> SID asid = [])"
  using assms(2) by (simp add: decode_long)

theorem sid_is_the_bytes_from_offset_4_witness:
  "recognized OSPFv3 \<and> 4 \<le> length [0x50, 7, 0, 0, 0xAA, 0xBB :: byte]
   \<and> (\<exists>asid. UnmarshalAdjacencySIDTLV OSPFv3 [0x50, 7, 0, 0, 0xAA, 0xBB] = Returns (Some asid) None
          \<and> SID asid = [0xAA, 0xBB] \<and> Weight asid = 7)
   \<and> (\<exists>asid. UnmarshalAdjacencySIDTLV ISISL1 [0x50, 7, 0, 0] = Returns (Some asid) None
          \<and> SID asid = [])"
proof -
  have r3: "recognized OSPFv3" and r1: "recognized ISISL1"
    by (simp_all add: recognized_def)
  have l6: "4 \<le> length [0x50, 7, 0, 0, 0xAA, 0xBB :: byte]"
    and l4: "4 \<le> length [0x50, 7, 0, 0 :: byte]"
    by simp_all
  show ?thesis
    using sid_is_the_bytes_from_offset_4 [OF r3 l6] sid_is_the_bytes_from_offset_4 [OF r1 l4]
      r3 l6
    by auto
qed

text \<open>
  C6, as the specification states it: decoding \<open>[0xB4, 0x0A, 0, 0, 1, 2, 3]\<close> under ISIS-L2
  gives the flags F, L and S set and B, V and P clear. It does not: \<open>0xB4\<close> is
  \<open>1011 0100\<close>, whose set bits are 7, 5, 4 and 2.
\<close>

theorem isis_l2_example_counterexample:
  "UnmarshalAdjacencySIDTLV ISISL2 [0xB4, 0x0A, 0x00, 0x00, 0x01, 0x02, 0x03] \<noteq>
     Returns (Some \<lparr>Flags = Some (ISISFlags \<lparr>F = True, B = False, V = False, L = True,
                                               S = True, P = False\<rparr>),
                    Weight = 10, SID = [0x01, 0x02, 0x03]\<rparr>) None"
  by (simp add: decode_defs UnmarshalAdjacencySIDISISFlags_def)

text \<open>
  C6, amended: decoding \<open>[0xB4, 0x0A, 0, 0, 1, 2, 3]\<close> under ISIS-L2 gives the flags F, V,
  L and P set and B and S clear (the layout F B V L S P from bit 7 down), weight 10 and
  SID \<open>[1, 2, 3]\<close>.
\<close>

theorem isis_l2_example:
  "UnmarshalAdjacencySIDTLV ISISL2 [0xB4, 0x0A, 0x00, 0x00, 0x01, 0x02, 0x03] =
     Returns (Some \<lparr>Flags = Some (ISISFlags \<lparr>F = True, B = False, V = True, L = True,
                                               S = False, P = True\<rparr>),
                    Weight = 10, SID = [0x01, 0x02, 0x03]\<rparr>) None"
  by (simp add: decode_defs UnmarshalAdjacencySIDISISFlags_def)

text \<open>
  C9. For a recognised tag and at least four bytes, the booleans of the decoded Flags
  value, put back at the positions of the layout of the tag, are to give the flags
  octet again on every named bit. Under OSPFv2 and OSPFv3 they do not: the decoder
  returns the ISIS-shaped value of \<open>UnmarshalAdjacencySIDOSPFFlags\<close>, whose B is bit 6
  of the octet and which has no G. On the octet \<open>0x80\<close> the value has B clear, and the
  octet re-derived from it is \<open>0\<close>; on \<open>0x40\<close> it has B set, and the octet re-derived
  is \<open>0x80\<close>. The helper \<open>UnmarshalAdjacencySIDOSPFv2Flags\<close>, which the decoder never
  calls, gives \<open>0x80\<close> back. (Under the two ISIS tags the octet comes back: lemma
  \<open>isis_flags_octet_roundtrip\<close>.)
\<close>

theorem ospf_flags_octet_not_reproduced:
  "UnmarshalAdjacencySIDTLV OSPFv2 [0x80, 0, 0, 0] =
     Returns (Some \<lparr>Flags = Some (ISISFlags \<lparr>F = True, B = False, V = False, L = False,
                                               S = False, P = False\<rparr>),
                    Weight = 0, SID = []\<rparr>) None
   \<and> spec_flags_octet OSPFv2 (ISISFlags \<lparr>F = True, B = False, V = False, L = False,
                                           S = False, P = False\<rparr>) = 0
   \<and> (0x80 :: byte) AND spec_tag_named_bits OSPFv2 = 0x80
   \<and> UnmarshalAdjacencySIDTLV OSPFv3 [0x40, 0, 0, 0] =
     Returns (Some \<lparr>Flags = Some (ISISFlags \<lparr>F = False, B = True, V = False, L = False,
                                               S = False, P = False\<rparr>),
                    Weight = 0, SID = []\<rparr>) None
   \<and> spec_flags_octet OSPFv3 (ISISFlags \<lparr>F = False, B = True, V = False, L = False,
                                           S = False, P = False\<rparr>) = 0x80
   \<and> (0x40 :: byte) AND spec_tag_named_bits OSPFv3 = 0x40
   \<and> spec_flags_octet OSPFv2 (UnmarshalAdjacencySIDOSPFv2Flags 0x80) = 0x80"
  by (simp add: decode_defs UnmarshalAdjacencySIDOSPFFlags_def
      UnmarshalAdjacencySIDOSPFv2Flags_def spec_flags_octet_def spec_tag_named_bits_def Is_defs)

text \<open>
  C10. On at least four bytes the decoder returns a nil error for every tag, recognised
  or not; under a tag outside the four it returns an object whose flags are unset and
  whose weight and SID are decoded from their offsets as usual.
\<close>

theorem unrecognized_tag_is_no_error:
  assumes "4 \<le> length b"
  shows "(\<exists>asid. UnmarshalAdjacencySIDTLV protoID b = Returns (Some asid) None)
         \<and> UnmarshalAdjacencySIDTLV (OtherProto n) b =
             Returns (Some \<lparr>Flags = None, Weight = b ! 1, SID = drop 4 b\<rparr>) None"
  using assms by (simp add: decode_long)

theorem unrecognized_tag_is_no_error_witness:
  "4 \<le> length [0xFF, 3, 0, 0, 1 :: byte]
   \<and> UnmarshalAdjacencySIDTLV (OtherProto 4) [0xFF, 3, 0, 0, 1] =
       Returns (Some \<lparr>Flags = None, Weight = 3, SID = [1]\<rparr>) None"
proof -
  have l: "4 \<le> length [0xFF, 3, 0, 0, 1 :: byte]"
    by simp
  show ?thesis
    using unrecognized_tag_is_no_error [OF l, of "OtherProto 4" 4] by simp
qed

section \<open>Properties of the JSON constructor\<close>

lemmas build_defs = BuildAdjacencySID_def buildAdjISISFlags_def buildAdjOSPFv2Flags_def
  buildAdjOSPFv3Flags_def flag_field_def Let_def

text \<open>
  When \<open>json.Unmarshal\<close> returns an error (\<open>isl\<close> holds of an \<open>Inl\<close>), for each
  target.
\<close>

lemma isl_Unmarshal_bool: "isl (Unmarshal_bool v x) = (\<not> accepts_bool v)"
  by (cases "(v, x)" rule: Unmarshal_bool.cases) (simp_all add: accepts_bool_def)

lemma isl_Unmarshal_uint8: "isl (Unmarshal_uint8 v x) = (\<not> accepts_uint8 v)"
  by (cases "(v, x)" rule: Unmarshal_uint8.cases) (simp_all add: accepts_uint8_def)

lemma isl_Unmarshal_elems:
  "isl (Unmarshal_elems js) = (\<not> list_all (\<lambda>j. accepts_uint8 (Raw j)) js)"
proof (induction js)
  case Nil
  show ?case by simp
next
  case (Cons j js)
  have "isl (Unmarshal_elems (j # js)) =
      (isl (Unmarshal_uint8 (Raw j) 0) \<or> isl (Unmarshal_elems js))"
    by (simp split: sum.splits)
  with Cons.IH show ?case by (simp add: isl_Unmarshal_uint8)
qed

lemma isl_Unmarshal_bytes: "isl (Unmarshal_bytes base64 v x) = (\<not> accepts_bytes base64 v)"
  by (cases "(base64, v, x)" rule: Unmarshal_bytes.cases)
     (simp_all add: isl_Unmarshal_elems split: option.splits)

lemma Unmarshal_object_cases:
  "Unmarshal_object v Map.empty =
     (if accepts_object v then Inr (object_members v)
      else Inl (case v of Malformed \<Rightarrow> SyntaxError | Raw j \<Rightarrow> UnmarshalTypeError))"
  by (cases "(v, Map.empty :: string \<rightharpoonup> RawMessage)" rule: Unmarshal_object.cases)
     (simp_all add: accepts_object_def)

lemma Unmarshal_bool_accepted:
  "accepts_bool v \<Longrightarrow> Unmarshal_bool v False = Inr (case v of Raw (JBool t) \<Rightarrow> t | _ \<Rightarrow> False)"
  by (cases "(v, False)" rule: Unmarshal_bool.cases) (simp_all add: accepts_bool_def)

text \<open>The three builders: what they return without an error, and when they return one.\<close>

lemma isl_flag_field: "isl (flag_field fo key) = flag_rejected fo key"
  by (cases "fo key") (simp_all add: flag_field_def flag_rejected_def isl_Unmarshal_bool)

lemma flag_field_ok: "\<not> flag_rejected fo key \<Longrightarrow> flag_field fo key = Inr (flag_value fo key)"
  by (cases "fo key")
     (simp_all add: flag_field_def flag_rejected_def flag_value_def Unmarshal_bool_accepted
        split: if_splits)

lemma flag_value_absent: "fo key = None \<Longrightarrow> flag_value fo key = False"
  by (simp add: flag_value_def)

lemma buildAdjISISFlags_ok:
  assumes "\<not> list_ex (flag_rejected fo) (flag_keys ISISL1)"
  shows "buildAdjISISFlags fo =
     (Some (ISISFlags \<lparr>F = flag_value fo ''f_flag'', B = flag_value fo ''b_flag'',
        V = flag_value fo ''v_flag'', L = flag_value fo ''l_flag'',
        S = flag_value fo ''s_flag'', P = flag_value fo ''p_flag''\<rparr>), None)"
  using assms by (simp add: buildAdjISISFlags_def flag_keys_def flag_field_ok)

lemma buildAdjOSPFv2Flags_ok:
  assumes "\<not> list_ex (flag_rejected fo) (flag_keys OSPFv2)"
  shows "buildAdjOSPFv2Flags fo =
     (Some (OSPFv2Flags \<lparr>adjOSPFv2Flags.B = flag_value fo ''b_flag'',
        V = flag_value fo ''v_flag'', L = flag_value fo ''l_flag'',
        G = flag_value fo ''g_flag'', P = flag_value fo ''p_flag''\<rparr>), None)"
  using assms by (simp add: buildAdjOSPFv2Flags_def flag_keys_def flag_field_ok)

lemma buildAdjOSPFv3Flags_ok:
  assumes "\<not> list_ex (flag_rejected fo) (flag_keys OSPFv3)"
  shows "buildAdjOSPFv3Flags fo =
     (Some (OSPFv3Flags \<lparr>adjOSPFv3Flags.B = flag_value fo ''b_flag'',
        V = flag_value fo ''v_flag'', L = flag_value fo ''l_flag'',
        G = flag_value fo ''g_flag'', P = flag_value fo ''p_flag''\<rparr>), None)"
  using assms by (simp add: buildAdjOSPFv3Flags_def flag_keys_def flag_field_ok)

lemma buildAdjISISFlags_rejected:
  assumes "list_ex (flag_rejected fo) (flag_keys ISISL1)"
  shows "\<exists>err. buildAdjISISFlags fo = (None, Some err)"
  using assms
  by (auto simp add: buildAdjISISFlags_def flag_keys_def sum.case_eq_if isl_flag_field)

lemma buildAdjOSPFv2Flags_rejected:
  assumes "list_ex (flag_rejected fo) (flag_keys OSPFv2)"
  shows "\<exists>err. buildAdjOSPFv2Flags fo = (None, Some err)"
  using assms
  by (auto simp add: buildAdjOSPFv2Flags_def flag_keys_def sum.case_eq_if isl_flag_field)

lemma buildAdjOSPFv3Flags_rejected:
  assumes "list_ex (flag_rejected fo) (flag_keys OSPFv3)"
  shows "\<exists>err. buildAdjOSPFv3Flags fo = (None, Some err)"
  using assms
  by (auto simp add: buildAdjOSPFv3Flags_def flag_keys_def sum.case_eq_if isl_flag_field)

text \<open>The constructor as the sequence of its three blocks, and when each block fails.\<close>

lemma BuildAdjacencySID_blocks:
  "BuildAdjacencySID base64 protoID b =
     (case flags_block protoID b \<lparr>Flags = None, Weight = 0, SID = []\<rparr> of
        Inl err \<Rightarrow> (None, Some err)
      | Inr asid1 \<Rightarrow>
          (case weight_block b asid1 of
             Inl err \<Rightarrow> (None, Some err)
           | Inr asid2 \<Rightarrow>
               (case sid_block base64 b asid2 of
                  Inl err \<Rightarrow> (None, Some err)
                | Inr asid3 \<Rightarrow> (Some asid3, None))))"
  unfolding BuildAdjacencySID_def flags_block_def weight_block_def sid_block_def Let_def
  by (simp split: sum.splits option.splits)

lemma isl_case_sum:
  "isl (case s of Inl err \<Rightarrow> Inl err | Inr t \<Rightarrow> Inr (g t)) = isl s"
  by (cases s) simp_all

lemma isl_weight_block:
  "isl (weight_block b asid) =
     (case b ''weight'' of None \<Rightarrow> False | Some v \<Rightarrow> (if accepts_uint8 v then False else True))"
  by (cases "b ''weight''")
     (simp_all add: weight_block_def isl_case_sum isl_Unmarshal_uint8)

lemma isl_sid_block:
  "isl (sid_block base64 b asid) =
     (case b ''sid'' of None \<Rightarrow> False | Some v \<Rightarrow> (if accepts_bytes base64 v then False else True))"
  by (cases "b ''sid''")
     (simp_all add: sid_block_def isl_case_sum isl_Unmarshal_bytes)

lemma isl_buildAdjISISFlags:
  "isl (case buildAdjISISFlags fo of (f, Some err) \<Rightarrow> Inl err | (f, None) \<Rightarrow> Inr (g f)) =
     list_ex (flag_rejected fo) (flag_keys ISISL1)"
proof (cases "list_ex (flag_rejected fo) (flag_keys ISISL1)")
  case True
  then obtain err where "buildAdjISISFlags fo = (None, Some err)"
    using buildAdjISISFlags_rejected by blast
  with True show ?thesis by simp
next
  case False
  then show ?thesis by (simp add: buildAdjISISFlags_ok)
qed

lemma isl_buildAdjOSPFv2Flags:
  "isl (case buildAdjOSPFv2Flags fo of (f, Some err) \<Rightarrow> Inl err | (f, None) \<Rightarrow> Inr (g f)) =
     list_ex (flag_rejected fo) (flag_keys OSPFv2)"
proof (cases "list_ex (flag_rejected fo) (flag_keys OSPFv2)")
  case True
  then obtain err where "buildAdjOSPFv2Flags fo = (None, Some err)"
    using buildAdjOSPFv2Flags_rejected by blast
  with True show ?thesis by simp
next
  case False
  then show ?thesis by (simp add: buildAdjOSPFv2Flags_ok)
qed

lemma isl_buildAdjOSPFv3Flags:
  "isl (case buildAdjOSPFv3Flags fo of (f, Some err) \<Rightarrow> Inl err | (f, None) \<Rightarrow> Inr (g f)) =
     list_ex (flag_rejected fo) (flag_keys OSPFv3)"
proof (cases "list_ex (flag_rejected fo) (flag_keys OSPFv3)")
  case True
  then obtain err where "buildAdjOSPFv3Flags fo = (None, Some err)"
    using buildAdjOSPFv3Flags_rejected by blast
  with True show ?thesis by simp
next
  case False
  then show ?thesis by (simp add: buildAdjOSPFv3Flags_ok)
qed

lemma flag_keys_ISISL2: "flag_keys ISISL2 = flag_keys ISISL1"
  by (simp add: flag_keys_def)

lemma isl_flags_block:
  assumes "recognized protoID"
  shows "isl (flags_block protoID b asid) = flags_rejected protoID b"
proof (cases "b ''flags''")
  case None
  then show ?thesis by (simp add: flags_block_def flags_rejected_def)
next
  case (Some v)
  show ?thesis
  proof (cases "accepts_object v")
    case False
    with Some show ?thesis
      by (simp add: flags_block_def flags_rejected_def Unmarshal_object_cases)
  next
    case True
    show ?thesis
    proof (cases protoID)
      case ISISL1
      with Some True show ?thesis
        by (simp add: flags_block_def flags_rejected_def Unmarshal_object_cases
            isl_buildAdjISISFlags)
    next
      case ISISL2
      with Some True show ?thesis
        by (simp add: flags_block_def flags_rejected_def Unmarshal_object_cases
            isl_buildAdjISISFlags flag_keys_ISISL2)
    next
      case OSPFv2
      with Some True show ?thesis
        by (simp add: flags_block_def flags_rejected_def Unmarshal_object_cases
            isl_buildAdjOSPFv2Flags)
    next
      case OSPFv3
      with Some True show ?thesis
        by (simp add: flags_block_def flags_rejected_def Unmarshal_object_cases
            isl_buildAdjOSPFv3Flags)
    next
      case (OtherProto n)
      with assms show ?thesis by (simp add: recognized_def)
    qed
  qed
qed

section \<open>The claims about the JSON constructor\<close>

text \<open>
  The ISIS flags survive the way through JSON: \<open>MarshalJSON\<close> writes the six keys
  \<open>buildAdjISISFlags\<close> reads.
\<close>

lemma isis_json_roundtrip:
  "BuildAdjacencySID base64 ISISL1 [''flags'' \<mapsto> fst (MarshalJSON (ISISFlags f))] =
     (Some \<lparr>Flags = Some (ISISFlags f), Weight = 0, SID = []\<rparr>, None)"
  by (simp add: build_defs MarshalJSON_def adjISISFlags_MarshalJSON_def)

text \<open>
  C4. A Flags value built from JSON is to come back unchanged when it is serialised
  with \<open>MarshalJSON\<close> and built again under the same tag. Under OSPFv2 and OSPFv3 the
  G flag does not: the builder reads it from the key \<open>g_flag\<close>, \<open>MarshalJSON\<close>
  writes it under \<open>s_flag\<close>, and the second build finds no \<open>g_flag\<close>.
\<close>

theorem ospf_g_flag_lost_in_json_roundtrip:
  "BuildAdjacencySID base64 OSPFv2 [''flags'' \<mapsto> Raw (JObject [(''g_flag'', JBool True)])] =
     (Some \<lparr>Flags = Some (OSPFv2Flags \<lparr>adjOSPFv2Flags.B = False, V = False, L = False,
                                           G = True, P = False\<rparr>),
            Weight = 0, SID = []\<rparr>, None)
   \<and> MarshalJSON (OSPFv2Flags \<lparr>adjOSPFv2Flags.B = False, V = False, L = False,
                                 G = True, P = False\<rparr>) =
     (Raw (JObject [(''b_flag'', JBool False), (''v_flag'', JBool False), (''l_flag'', JBool False),
                    (''s_flag'', JBool True), (''p_flag'', JBool False)]), None)
   \<and> BuildAdjacencySID base64 OSPFv2
       [''flags'' \<mapsto> Raw (JObject [(''b_flag'', JBool False), (''v_flag'', JBool False),
          (''l_flag'', JBool False), (''s_flag'', JBool True), (''p_flag'', JBool False)])] =
     (Some \<lparr>Flags = Some (OSPFv2Flags \<lparr>adjOSPFv2Flags.B = False, V = False, L = False,
                                           G = False, P = False\<rparr>),
            Weight = 0, SID = []\<rparr>, None)"
  by (simp add: build_defs MarshalJSON_def adjOSPFv2Flags_MarshalJSON_def)

text \<open>
  C5. The JSON form of an OSPFv2 or OSPFv3 Flags value is to have the keys \<open>b_flag\<close>,
  \<open>v_flag\<close>, \<open>l_flag\<close>, \<open>g_flag\<close> and \<open>p_flag\<close>. \<open>MarshalJSON\<close> of both types
  writes the G flag under \<open>s_flag\<close>, the key of the ISIS S flag, and no \<open>g_flag\<close>.
\<close>

theorem ospf_marshal_json_writes_s_flag:
  "MarshalJSON (OSPFv2Flags \<lparr>adjOSPFv2Flags.B = True, V = False, L = False, G = True, P = False\<rparr>) =
     (Raw (JObject [(''b_flag'', JBool True), (''v_flag'', JBool False), (''l_flag'', JBool False),
                    (''s_flag'', JBool True), (''p_flag'', JBool False)]), None)
   \<and> MarshalJSON (OSPFv3Flags \<lparr>adjOSPFv3Flags.B = True, V = False, L = False, G = True, P = False\<rparr>) =
     (Raw (JObject [(''b_flag'', JBool True), (''v_flag'', JBool False), (''l_flag'', JBool False),
                    (''s_flag'', JBool True), (''p_flag'', JBool False)]), None)"
  by (simp add: MarshalJSON_def adjOSPFv2Flags_MarshalJSON_def adjOSPFv3Flags_MarshalJSON_def)

text \<open>
  C7. Building under OSPFv2 from \<open>{"flags": {"b_flag": true, "p_flag": true}, "weight": 5,
  "sid": [9,9,9,9]}\<close> succeeds with the flags B and P set and V, L and G clear, weight 5
  and SID \<open>[9, 9, 9, 9]\<close>. For each of the three builders: when no key of the variant
  that is present holds a value \<open>json.Unmarshal\<close> rejects, the builder succeeds, and
  every flag whose key is absent is false. An absent key is thus never an error.
\<close>

theorem build_ospfv2_example_and_absent_keys:
  "BuildAdjacencySID base64 OSPFv2
     [''flags'' \<mapsto> Raw (JObject [(''b_flag'', JBool True), (''p_flag'', JBool True)]),
      ''weight'' \<mapsto> Raw (JUInt 5),
      ''sid'' \<mapsto> Raw (JArray [JUInt 9, JUInt 9, JUInt 9, JUInt 9])] =
     (Some \<lparr>Flags = Some (OSPFv2Flags \<lparr>adjOSPFv2Flags.B = True, V = False, L = False,
                                           G = False, P = True\<rparr>),
            Weight = 5, SID = [9, 9, 9, 9]\<rparr>, None)
   \<and> (\<not> list_ex (flag_rejected fo) (flag_keys ISISL1) \<longrightarrow>
        (\<exists>f. buildAdjISISFlags fo = (Some (ISISFlags f), None)
           \<and> (fo ''f_flag'' = None \<longrightarrow> \<not> F f)
           \<and> (fo ''b_flag'' = None \<longrightarrow> \<not> adjISISFlags.B f)
           \<and> (fo ''v_flag'' = None \<longrightarrow> \<not> adjISISFlags.V f)
           \<and> (fo ''l_flag'' = None \<longrightarrow> \<not> adjISISFlags.L f)
           \<and> (fo ''s_flag'' = None \<longrightarrow> \<not> S f)
           \<and> (fo ''p_flag'' = None \<longrightarrow> \<not> adjISISFlags.P f)))
   \<and> (\<not> list_ex (flag_rejected fo) (flag_keys OSPFv2) \<longrightarrow>
        (\<exists>f. buildAdjOSPFv2Flags fo = (Some (OSPFv2Flags f), None)
           \<and> (fo ''b_flag'' = None \<longrightarrow> \<not> adjOSPFv2Flags.B f)
           \<and> (fo ''v_flag'' = None \<longrightarrow> \<not> adjOSPFv2Flags.V f)
           \<and> (fo ''l_flag'' = None \<longrightarrow> \<not> adjOSPFv2Flags.L f)
           \<and> (fo ''g_flag'' = None \<longrightarrow> \<not> adjOSPFv2Flags.G f)
           \<and> (fo ''p_flag'' = None \<longrightarrow> \<not> adjOSPFv2Flags.P f)))
   \<and> (\<not> list_ex (flag_rejected fo) (flag_keys OSPFv3) \<longrightarrow>
        (\<exists>f. buildAdjOSPFv3Flags fo = (Some (OSPFv3Flags f), None)
           \<and> (fo ''b_flag'' = None \<longrightarrow> \<not> adjOSPFv3Flags.B f)
           \<and> (fo ''v_flag'' = None \<longrightarrow> \<not> adjOSPFv3Flags.V f)
           \<and> (fo ''l_flag'' = None \<longrightarrow> \<not> adjOSPFv3Flags.L f)
           \<and> (fo ''g_flag'' = None \<longrightarrow> \<not> adjOSPFv3Flags.G f)
           \<and> (fo ''p_flag'' = None \<longrightarrow> \<not> adjOSPFv3Flags.P f)))"
proof (intro conjI impI)
  show "BuildAdjacencySID base64 OSPFv2
     [''flags'' \<mapsto> Raw (JObject [(''b_flag'', JBool True), (''p_flag'', JBool True)]),
      ''weight'' \<mapsto> Raw (JUInt 5),
      ''sid'' \<mapsto> Raw (JArray [JUInt 9, JUInt 9, JUInt 9, JUInt 9])] =
     (Some \<lparr>Flags = Some (OSPFv2Flags \<lparr>adjOSPFv2Flags.B = True, V = False, L = False,
                                           G = False, P = True\<rparr>),
            Weight = 5, SID = [9, 9, 9, 9]\<rparr>, None)"
    by (simp add: build_defs)
next
  assume "\<not> list_ex (flag_rejected fo) (flag_keys ISISL1)"
  then show "\<exists>f. buildAdjISISFlags fo = (Some (ISISFlags f), None)
           \<and> (fo ''f_flag'' = None \<longrightarrow> \<not> F f)
           \<and> (fo ''b_flag'' = None \<longrightarrow> \<not> adjISISFlags.B f)
           \<and> (fo ''v_flag'' = None \<longrightarrow> \<not> adjISISFlags.V f)
           \<and> (fo ''l_flag'' = None \<longrightarrow> \<not> adjISISFlags.L f)
           \<and> (fo ''s_flag'' = None \<longrightarrow> \<not> S f)
           \<and> (fo ''p_flag'' = None \<longrightarrow> \<not> adjISISFlags.P f)"
    by (simp add: buildAdjISISFlags_ok flag_value_absent)
next
  assume "\<not> list_ex (flag_rejected fo) (flag_keys OSPFv2)"
  then show "\<exists>f. buildAdjOSPFv2Flags fo = (Some (OSPFv2Flags f), None)
           \<and> (fo ''b_flag'' = None \<longrightarrow> \<not> adjOSPFv2Flags.B f)
           \<and> (fo ''v_flag'' = None \<longrightarrow> \<not> adjOSPFv2Flags.V f)
           \<and> (fo ''l_flag'' = None \<longrightarrow> \<not> adjOSPFv2Flags.L f)
           \<and> (fo ''g_flag'' = None \<longrightarrow> \<not> adjOSPFv2Flags.G f)
           \<and> (fo ''p_flag'' = None \<longrightarrow> \<not> adjOSPFv2Flags.P f)"
    by (simp add: buildAdjOSPFv2Flags_ok flag_value_absent)
next
  assume "\<not> list_ex (flag_rejected fo) (flag_keys OSPFv3)"
  then show "\<exists>f. buildAdjOSPFv3Flags fo = (Some (OSPFv3Flags f), None)
           \<and> (fo ''b_flag'' = None \<longrightarrow> \<not> adjOSPFv3Flags.B f)
           \<and> (fo ''v_flag'' = None \<longrightarrow> \<not> adjOSPFv3Flags.V f)
           \<and> (fo ''l_flag'' = None \<longrightarrow> \<not> adjOSPFv3Flags.L f)
           \<and> (fo ''g_flag'' = None \<longrightarrow> \<not> adjOSPFv3Flags.G f)
           \<and> (fo ''p_flag'' = None \<longrightarrow> \<not> adjOSPFv3Flags.P f)"
    by (simp add: buildAdjOSPFv3Flags_ok flag_value_absent)
qed

theorem build_ospfv2_example_and_absent_keys_witness:
  "\<not> list_ex (flag_rejected [''b_flag'' \<mapsto> Raw (JBool True), ''p_flag'' \<mapsto> Raw (JBool True)])
       (flag_keys ISISL1)
   \<and> \<not> list_ex (flag_rejected [''b_flag'' \<mapsto> Raw (JBool True), ''p_flag'' \<mapsto> Raw (JBool True)])
       (flag_keys OSPFv2)
   \<and> \<not> list_ex (flag_rejected [''b_flag'' \<mapsto> Raw (JBool True), ''p_flag'' \<mapsto> Raw (JBool True)])
       (flag_keys OSPFv3)
   \<and> [''b_flag'' \<mapsto> Raw (JBool True), ''p_flag'' \<mapsto> Raw (JBool True)] ''v_flag'' = None
   \<and> buildAdjISISFlags [''b_flag'' \<mapsto> Raw (JBool True), ''p_flag'' \<mapsto> Raw (JBool True)] =
       (Some (ISISFlags \<lparr>F = False, B = True, V = False, L = False, S = False, P = True\<rparr>), None)
   \<and> buildAdjOSPFv2Flags [''b_flag'' \<mapsto> Raw (JBool True), ''p_flag'' \<mapsto> Raw (JBool True)] =
       (Some (OSPFv2Flags \<lparr>adjOSPFv2Flags.B = True, V = False, L = False, G = False, P = True\<rparr>),
        None)
   \<and> buildAdjOSPFv3Flags [''b_flag'' \<mapsto> Raw (JBool True), ''p_flag'' \<mapsto> Raw (JBool True)] =
       (Some (OSPFv3Flags \<lparr>adjOSPFv3Flags.B = True, V = False, L = False, G = False, P = True\<rparr>),
        None)"
  using build_ospfv2_example_and_absent_keys
    [of "\<lambda>s. None" "[''b_flag'' \<mapsto> Raw (JBool True), ''p_flag'' \<mapsto> Raw (JBool True)]"]
  by (simp add: flag_rejected_def flag_keys_def accepts_bool_def buildAdjISISFlags_def
      buildAdjOSPFv2Flags_def buildAdjOSPFv3Flags_def flag_field_def)

text \<open>
  C8, as the specification states it: \<open>BuildAdjacencySID\<close> fails exactly when a present
  key's value does not have its declared shape. It does not fail on \<open>{"weight": null}\<close>,
  whose weight is no number: \<open>json.Unmarshal\<close> takes \<open>null\<close> for every target and
  leaves the weight zero.
\<close>

theorem null_weight_counterexample:
  "spec_shape_violation ISISL1 [''weight'' \<mapsto> Raw JNull]
   \<and> BuildAdjacencySID (\<lambda>s. None) ISISL1 [''weight'' \<mapsto> Raw JNull] =
       (Some \<lparr>Flags = None, Weight = 0, SID = []\<rparr>, None)"
  by (simp add: spec_shape_violation_def build_defs)

text \<open>
  C8, amended: for every recognised tag \<open>BuildAdjacencySID\<close> returns an error exactly
  when a present key's value is not \<open>null\<close> and cannot be parsed as its declared shape:
  the flags are neither \<open>null\<close> nor an object, a key of the variant in the flags object
  holds neither \<open>null\<close> nor a boolean, the weight is neither \<open>null\<close> nor an unsigned
  integer literal within 0 to 255, or the SID is neither \<open>null\<close>, nor a base64 string,
  nor an array of such integers and \<open>null\<close>s. Whenever it returns an error, the object
  it returns is nil.
\<close>

theorem build_fails_iff_rejected:
  assumes "recognized protoID"
  shows "(snd (BuildAdjacencySID base64 protoID b) \<noteq> None) = decode_rejects base64 protoID b \<and>
         (snd (BuildAdjacencySID base64 protoID b) \<noteq> None \<longrightarrow>
            fst (BuildAdjacencySID base64 protoID b) = None)"
proof -
  let ?asid = "\<lparr>Flags = None, Weight = 0, SID = []\<rparr>"
  have d: "decode_rejects base64 protoID b =
      (flags_rejected protoID b
       \<or> (case b ''weight'' of None \<Rightarrow> False | Some v \<Rightarrow> (if accepts_uint8 v then False else True))
       \<or> (case b ''sid'' of None \<Rightarrow> False | Some v \<Rightarrow> (if accepts_bytes base64 v then False else True)))"
    by (simp only: decode_rejects_def flags_rejected_def)
  show ?thesis
  proof (cases "flags_block protoID b ?asid")
    case (Inl err)
    then have "flags_rejected protoID b"
      using isl_flags_block [OF assms, of b ?asid] by simp
    with Inl show ?thesis
      by (simp add: BuildAdjacencySID_blocks d)
  next
    case flags: (Inr asid1)
    then have no_flags: "\<not> flags_rejected protoID b"
      using isl_flags_block [OF assms, of b ?asid] by simp
    show ?thesis
    proof (cases "weight_block b asid1")
      case (Inl err)
      then have "case b ''weight'' of None \<Rightarrow> False
          | Some v \<Rightarrow> (if accepts_uint8 v then False else True)"
        using isl_weight_block [of b asid1] by simp
      with flags Inl show ?thesis
        by (simp add: BuildAdjacencySID_blocks d)
    next
      case weight: (Inr asid2)
      then have no_weight: "\<not> (case b ''weight'' of None \<Rightarrow> False
          | Some v \<Rightarrow> (if accepts_uint8 v then False else True))"
        using isl_weight_block [of b asid1] by simp
      show ?thesis
      proof (cases "sid_block base64 b asid2")
        case (Inl err)
        then have "case b ''sid'' of None \<Rightarrow> False
            | Some v \<Rightarrow> (if accepts_bytes base64 v then False else True)"
          using isl_sid_block [of base64 b asid2] by simp
        with flags weight Inl show ?thesis
          by (simp add: BuildAdjacencySID_blocks d)
      next
        case (Inr asid3)
        then have "\<not> (case b ''sid'' of None \<Rightarrow> False
            | Some v \<Rightarrow> (if accepts_bytes base64 v then False else True))"
          using isl_sid_block [of base64 b asid2] by simp
        with flags weight Inr no_flags no_weight show ?thesis
          by (simp add: BuildAdjacencySID_blocks d)
      qed
    qed
  qed
qed

theorem build_fails_iff_rejected_witness:
  "recognized OSPFv2
   \<and> decode_rejects (\<lambda>s. None) OSPFv2
       [''flags'' \<mapsto> Raw (JObject [(''g_flag'', JUInt 1)]), ''weight'' \<mapsto> Raw (JUInt 5)]
   \<and> BuildAdjacencySID (\<lambda>s. None) OSPFv2
       [''flags'' \<mapsto> Raw (JObject [(''g_flag'', JUInt 1)]), ''weight'' \<mapsto> Raw (JUInt 5)] =
       (None, Some UnmarshalTypeError)
   \<and> recognized ISISL2
   \<and> BuildAdjacencySID (\<lambda>s. None) ISISL2 [''weight'' \<mapsto> Raw (JUInt 256)] =
       (None, Some UnmarshalTypeError)"
proof -
  have r2: "recognized OSPFv2" and r1: "recognized ISISL2"
    by (simp_all add: recognized_def)
  show ?thesis
    using build_fails_iff_rejected [OF r2, of "\<lambda>s. None"
        "[''flags'' \<mapsto> Raw (JObject [(''g_flag'', JUInt 1)]), ''weight'' \<mapsto> Raw (JUInt 5)]"]
      build_fails_iff_rejected [OF r1, of "\<lambda>s. None" "[''weight'' \<mapsto> Raw (JUInt 256)]"]
      r1 r2
    by (simp add: build_defs)
qed


end
